theory Spec2Isabelle
  imports Main "HOL-Library.Sublist"
begin

section \<open>JavaScript values, errors and responses\<close>

text \<open>
  The controllers of \<^verbatim>\<open>src/controllers/user.controller.js\<close>, the middleware
  \<^verbatim>\<open>verifyJWT\<close> and the wrapper \<^verbatim>\<open>asyncHandler\<close> are embedded as state-passing
  functions. A thrown value is \<open>Inl\<close> of a \<open>js_error\<close>; the state is the user
  collection, the clock read by the token library, and a script that says which of the
  coming database calls reject.
\<close>

text \<open>The values the \<^verbatim>\<open>code\<close> property of a thrown object can hold.\<close>

datatype js_val = Undefined | Null | Num nat | Str string

text \<open>JavaScript truthiness, as \<^verbatim>\<open>||\<close> and \<^verbatim>\<open>!\<close> use it.\<close>

fun truthy :: "js_val \<Rightarrow> bool" where
  "truthy Undefined = False"
| "truthy Null = False"
| "truthy (Num n) = (n \<noteq> 0)"
| "truthy (Str s) = (s \<noteq> [])"

text \<open>\<^verbatim>\<open>a || b\<close>\<close>

definition js_or :: "js_val \<Rightarrow> js_val \<Rightarrow> js_val" where
  "js_or a b = (if truthy a then a else b)"

text \<open>
  A thrown error object: its \<^verbatim>\<open>code\<close> and \<^verbatim>\<open>message\<close> properties (the only two
  the source reads). An absent message is the empty string.
\<close>

record js_error =
  code :: js_val
  message :: string

text \<open>
  Modelled from the spec: the class \<^verbatim>\<open>ApiError\<close> (\<^verbatim>\<open>utils/ApiError.js\<close>, not among the
  sources). \<^verbatim>\<open>new ApiError(status, message)\<close> is a failure that carries a status
  classification and a human-readable message; \<^verbatim>\<open>asyncHandler\<close> reads the
  classification from the property \<^verbatim>\<open>code\<close>.
\<close>

definition ApiError :: "nat \<Rightarrow> string \<Rightarrow> js_error" where
  "ApiError c m = \<lparr>code = Num c, message = m\<rparr>"

text \<open>
  What a \<^verbatim>\<open>throw\<close> can throw, as far as a \<^verbatim>\<open>catch\<close> that reads properties of the
  caught value can tell: a value whose properties can be read (an error object; a thrown
  string or number reads as an object without \<^verbatim>\<open>code\<close> and \<^verbatim>\<open>message\<close>), or
  \<^verbatim>\<open>null\<close> or \<^verbatim>\<open>undefined\<close>, whose properties cannot be read.
\<close>

datatype thrown = Thrown js_error | ThrownNullish

section \<open>Tokens\<close>

text \<open>
  A string that travels as a credential is either the serialisation of a signed token
  (the key it was signed with, subject id, issued-at, expires-at) or some other text.
  Equality of these values is equality of the strings.
\<close>

datatype token =
  Jwt (jwt_key: string) (jwt_sub: nat) (jwt_iat: nat) (jwt_exp: nat)
| Text string

text \<open>A string is falsy exactly when it is empty; a missing one is \<open>None\<close>.\<close>

fun truthy_token :: "token option \<Rightarrow> bool" where
  "truthy_token None = False"
| "truthy_token (Some (Text s)) = (s \<noteq> [])"
| "truthy_token (Some (Jwt k s i e)) = True"

fun truthy_str :: "string option \<Rightarrow> bool" where
  "truthy_str None = False"
| "truthy_str (Some s) = (s \<noteq> [])"

text \<open>The process configuration (\<^verbatim>\<open>process.env\<close>): two secrets, two lifetimes.\<close>

record config =
  ACCESS_TOKEN_SECRET :: string
  ACCESS_TOKEN_EXPIRY :: nat
  REFRESH_TOKEN_SECRET :: string
  REFRESH_TOKEN_EXPIRY :: nat

text \<open>
  Modelled from the spec: \<^verbatim>\<open>jwt.verify\<close> of the token library, the Token Service's
  \<^verbatim>\<open>verify(token, kind)\<close>. It fails when the signature does not match the secret of
  that kind, or when the current time exceeds the expiry claim, and checks nothing else;
  otherwise it returns the subject id. The messages are the library's.
\<close>

definition jwt_verify :: "token \<Rightarrow> string \<Rightarrow> nat \<Rightarrow> js_error + nat" where
  "jwt_verify t secret now =
     (case t of
        Text s \<Rightarrow> Inl \<lparr>code = Undefined, message = ''jwt malformed''\<rparr>
      | Jwt k sub iat ex \<Rightarrow>
          if k \<noteq> secret then Inl \<lparr>code = Undefined, message = ''invalid signature''\<rparr>
          else if ex < now then Inl \<lparr>code = Undefined, message = ''jwt expired''\<rparr>
          else Inr sub)"

section \<open>The user collection\<close>

text \<open>A user document. The avatar and cover image play no part in the session code.\<close>

record user =
  uid :: nat
  username :: string
  email :: string
  fullname :: string
  password :: string
  refreshToken :: "token option"

text \<open>A document after \<^verbatim>\<open>.select("-password -refreshToken")\<close>.\<close>

record safe_user =
  safe_id :: nat
  safe_username :: string
  safe_email :: string
  safe_fullname :: string

definition select_safe :: "user \<Rightarrow> safe_user" where
  "select_safe u = \<lparr>safe_id = uid u, safe_username = username u,
     safe_email = email u, safe_fullname = fullname u\<rparr>"

text \<open>
  Modelled from the spec: the methods \<^verbatim>\<open>generateAccessToken\<close> and
  \<^verbatim>\<open>generateRefreshToken\<close> of the user model (\<^verbatim>\<open>models/user.model.js\<close>, not among
  the sources), the Token Service's \<^verbatim>\<open>issueAccessToken\<close> and \<^verbatim>\<open>issueRefreshToken\<close>:
  each signs a payload containing the user id and the standard time claims with the
  secret and the lifetime of its kind, a pure function of user identity, secret and
  clock.
\<close>

definition generateAccessToken :: "config \<Rightarrow> user \<Rightarrow> nat \<Rightarrow> token" where
  "generateAccessToken cfg u now =
     Jwt (ACCESS_TOKEN_SECRET cfg) (uid u) now (now + ACCESS_TOKEN_EXPIRY cfg)"

definition generateRefreshToken :: "config \<Rightarrow> user \<Rightarrow> nat \<Rightarrow> token" where
  "generateRefreshToken cfg u now =
     Jwt (REFRESH_TOKEN_SECRET cfg) (uid u) now (now + REFRESH_TOKEN_EXPIRY cfg)"

text \<open>
  The state a request runs in: the documents in their natural order, the clock, and for
  each coming database call whether it rejects (\<open>Some\<close> of the error it rejects with) or
  answers (\<open>None\<close>); once the script is used up every call answers.
\<close>

record world =
  users :: "user list"
  clock :: nat
  db_script :: "js_error option list"

definition db_call :: "world \<Rightarrow> js_error option \<times> world" where
  "db_call w = (case db_script w of
                  [] \<Rightarrow> (None, w)
                | r # rs \<Rightarrow> (r, w\<lparr>db_script := rs\<rparr>))"

text \<open>\<^verbatim>\<open>User.findById(id)\<close>\<close>

definition findById :: "world \<Rightarrow> nat \<Rightarrow> (js_error + user option) \<times> world" where
  "findById w i =
     (case db_call w of
        (Some e, w') \<Rightarrow> (Inl e, w')
      | (None, w') \<Rightarrow> (Inr (find (\<lambda>u. uid u = i) (users w')), w'))"

text \<open>
  \<^verbatim>\<open>User.findOne({ $or: [{ username }, { email }] })\<close>: the first document whose
  username or whose email is the given one. A field missing from the request matches no
  document.
\<close>

definition credential_matches :: "string option \<Rightarrow> string option \<Rightarrow> user \<Rightarrow> bool" where
  "credential_matches un em u \<longleftrightarrow> Some (username u) = un \<or> Some (email u) = em"

definition findOne ::
  "world \<Rightarrow> string option \<Rightarrow> string option \<Rightarrow> (js_error + user option) \<times> world" where
  "findOne w un em =
     (case db_call w of
        (Some e, w') \<Rightarrow> (Inl e, w')
      | (None, w') \<Rightarrow> (Inr (find (credential_matches un em) (users w')), w'))"

text \<open>The first element that satisfies \<open>P\<close> is replaced by its image under \<open>f\<close>.\<close>

fun update_first :: "('a \<Rightarrow> bool) \<Rightarrow> ('a \<Rightarrow> 'a) \<Rightarrow> 'a list \<Rightarrow> 'a list" where
  "update_first P f [] = []"
| "update_first P f (x # xs) = (if P x then f x # xs else x # update_first P f xs)"

text \<open>\<^verbatim>\<open>doc.save()\<close>: the stored document with the id of \<open>doc\<close> becomes \<open>doc\<close>.\<close>

definition save :: "world \<Rightarrow> user \<Rightarrow> (js_error + unit) \<times> world" where
  "save w doc =
     (case db_call w of
        (Some e, w') \<Rightarrow> (Inl e, w')
      | (None, w') \<Rightarrow>
          (Inr (), w'\<lparr>users := update_first (\<lambda>u. uid u = uid doc) (\<lambda>u. doc) (users w')\<rparr>))"

text \<open>\<^verbatim>\<open>User.findByIdAndUpdate(id, { $unset: { refreshToken: "" } }, { new: true })\<close>\<close>

definition findByIdAndUpdate_unset :: "world \<Rightarrow> nat \<Rightarrow> (js_error + unit) \<times> world" where
  "findByIdAndUpdate_unset w i =
     (case db_call w of
        (Some e, w') \<Rightarrow> (Inl e, w')
      | (None, w') \<Rightarrow>
          (Inr (), w'\<lparr>users := update_first (\<lambda>u. uid u = i) (\<lambda>u. u\<lparr>refreshToken := None\<rparr>) (users w')\<rparr>))"

section \<open>Requests and responses\<close>

text \<open>
  The value of the \<^verbatim>\<open>Authorization\<close> header: the text \<^verbatim>\<open>Bearer\<close>, a space and a
  credential, or a text that does not start that way.
\<close>

datatype auth_header = Bearer token | Unprefixed token

text \<open>\<^verbatim>\<open>s.replace(pat, "")\<close>: the first occurrence of \<open>pat\<close> in \<open>s\<close> is removed.\<close>

fun remove_first :: "string \<Rightarrow> string \<Rightarrow> string" where
  "remove_first pat [] = []"
| "remove_first pat (c # cs) =
     (if prefix pat (c # cs) then drop (length pat) (c # cs) else c # remove_first pat cs)"

text \<open>
  \<^verbatim>\<open>header.replace("Bearer ", "")\<close>. The serialisation of a signed token has no space
  in it, so it is left as it is.
\<close>

fun strip_bearer :: "auth_header \<Rightarrow> token" where
  "strip_bearer (Bearer t) = t"
| "strip_bearer (Unprefixed (Text s)) = Text (remove_first ''Bearer '' s)"
| "strip_bearer (Unprefixed (Jwt k s i e)) = Jwt k s i e"

text \<open>
  The parts of a request that the session code reads. \<open>req_user\<close> is the property
  \<^verbatim>\<open>req.user\<close>, which only \<^verbatim>\<open>verifyJWT\<close> sets.
\<close>

record request =
  cookies_accessToken :: "token option"
  cookies_refreshToken :: "token option"
  authorization :: "auth_header option"
  body_username :: "string option"
  body_email :: "string option"
  body_password :: "string option"
  body_refreshToken :: "token option"
  req_user :: "safe_user option"

text \<open>The \<^verbatim>\<open>data\<close> of a success envelope.\<close>

datatype payload =
  NoData
| LoginData "safe_user option" token token
| TokenData token token

text \<open>
  A JSON body: the object \<^verbatim>\<open>{success, message}\<close> that \<^verbatim>\<open>asyncHandler\<close> writes, or
  the envelope \<^verbatim>\<open>new ApiResponse(statusCode, data, message)\<close>.
\<close>

datatype body =
  Failure bool string
| ApiResponse nat payload string

record cookie_options =
  httpOnly :: bool
  secure :: bool

text \<open>
  What a handler wrote to \<^verbatim>\<open>res\<close>: the status, the cookies set and cleared, the JSON
  body.
\<close>

record response =
  status :: js_val
  cookies :: "(string \<times> token \<times> cookie_options) list"
  cleared :: "(string \<times> cookie_options) list"
  body :: body

text \<open>A handler either ends the request with a response or calls \<^verbatim>\<open>next()\<close>.\<close>

datatype outcome = Respond response | Next request

definition options :: cookie_options where
  "options = \<lparr>httpOnly = True, secure = True\<rparr>"

section \<open>The wrapper\<close>

text \<open>
  The statuses \<^verbatim>\<open>res.status(s).json(body)\<close> can send: the integers from 100 to 999.
  With any other value the call throws instead of answering.
\<close>

fun valid_status :: "js_val \<Rightarrow> bool" where
  "valid_status (Num n) = (100 \<le> n \<and> n \<le> 999)"
| "valid_status Undefined = False"
| "valid_status Null = False"
| "valid_status (Str s) = False"

text \<open>
  The error of that call, and the error of reading a property of \<^verbatim>\<open>null\<close> or
  \<^verbatim>\<open>undefined\<close>. Their messages, which go on to name the offending value and property,
  are cut to the fixed part.
\<close>

definition invalid_status_code :: js_error where
  "invalid_status_code =
     \<lparr>code = Str ''ERR_HTTP_INVALID_STATUS_CODE'', message = ''Invalid status code''\<rparr>"

definition nullish_read :: js_error where
  "nullish_read = \<lparr>code = Undefined, message = ''Cannot read properties of null''\<rparr>"

text \<open>
  \<^verbatim>\<open>asyncHandler(controller)\<close>. What the controller throws is caught and answered with
  status \<^verbatim>\<open>error.code || 500\<close> and body \<^verbatim>\<open>{success: false, message: error.message}\<close>.
  The \<^verbatim>\<open>catch\<close> block is not guarded itself: when reading \<^verbatim>\<open>error.code\<close> throws, or
  when the status is none that can be sent, the wrapper throws (\<open>Inl\<close>) and no response
  is written.
\<close>

definition asyncHandler ::
  "(world \<Rightarrow> request \<Rightarrow> (thrown + outcome) \<times> world) \<Rightarrow>
     world \<Rightarrow> request \<Rightarrow> (js_error + outcome) \<times> world" where
  "asyncHandler controller w req =
     (case controller w req of
        (Inr out, w') \<Rightarrow> (Inr out, w')
      | (Inl ThrownNullish, w') \<Rightarrow> (Inl nullish_read, w')
      | (Inl (Thrown error), w') \<Rightarrow>
          (if valid_status (js_or (code error) (Num 500))
           then (Inr (Respond \<lparr>status = js_or (code error) (Num 500), cookies = [],
                               cleared = [], body = Failure False (message error)\<rparr>), w')
           else (Inl invalid_status_code, w')))"

text \<open>
  The controllers of this repository throw error objects only: an \<^verbatim>\<open>ApiError\<close>, or the
  error of the token library or of the store.
\<close>

definition throws_objects ::
  "(world \<Rightarrow> request \<Rightarrow> (js_error + outcome) \<times> world) \<Rightarrow>
     world \<Rightarrow> request \<Rightarrow> (thrown + outcome) \<times> world" where
  "throws_objects controller w req =
     (case controller w req of
        (Inl error, w') \<Rightarrow> (Inl (Thrown error), w')
      | (Inr out, w') \<Rightarrow> (Inr out, w'))"

section \<open>Session controllers\<close>

definition generation_failed :: js_error where
  "generation_failed =
     ApiError 500 ''Something went wrong while generating access and refresh token''"

text \<open>
  \<^verbatim>\<open>generateAccessTokenAndRefreshToken(userId)\<close>. Everything thrown inside the
  \<^verbatim>\<open>try\<close>, also the \<^verbatim>\<open>TypeError\<close> of calling a method of \<^verbatim>\<open>null\<close> when no
  document has the id, is replaced by the same error.
\<close>

definition generateAccessTokenAndRefreshToken ::
  "config \<Rightarrow> world \<Rightarrow> nat \<Rightarrow> (js_error + token \<times> token) \<times> world" where
  "generateAccessTokenAndRefreshToken cfg w userId =
     (case findById w userId of
        (Inl e, w1) \<Rightarrow> (Inl generation_failed, w1)
      | (Inr None, w1) \<Rightarrow> (Inl generation_failed, w1)
      | (Inr (Some user), w1) \<Rightarrow>
          (let accessToken = generateAccessToken cfg user (clock w1);
               refreshToken' = generateRefreshToken cfg user (clock w1)
           in case save w1 (user\<lparr>refreshToken := Some refreshToken'\<rparr>) of
                (Inl e, w2) \<Rightarrow> (Inl generation_failed, w2)
              | (Inr u, w2) \<Rightarrow> (Inr (accessToken, refreshToken'), w2)))"

text \<open>
  The controller inside \<^verbatim>\<open>loginUser\<close>. \<open>isPasswordCorrect\<close> is the method of the user
  model that checks a plain password against the stored hash; it is a parameter.
\<close>

definition login_controller ::
  "config \<Rightarrow> (user \<Rightarrow> string \<Rightarrow> bool) \<Rightarrow> world \<Rightarrow> request \<Rightarrow> (js_error + outcome) \<times> world" where
  "login_controller cfg isPasswordCorrect w req =
     (if \<not> (truthy_str (body_username req) \<or> truthy_str (body_email req))
         \<or> \<not> truthy_str (body_password req)
      then (Inl (ApiError 400 ''Username or email and password are required.''), w)
      else (case findOne w (body_username req) (body_email req) of
        (Inl e, w1) \<Rightarrow> (Inl e, w1)
      | (Inr None, w1) \<Rightarrow> (Inl (ApiError 404 ''User does not exist.''), w1)
      | (Inr (Some user), w1) \<Rightarrow>
          (if \<not> (case body_password req of None \<Rightarrow> False | Some p \<Rightarrow> isPasswordCorrect user p)
           then (Inl (ApiError 401 ''Invalid user credentials''), w1)
           else (case generateAccessTokenAndRefreshToken cfg w1 (uid user) of
             (Inl e, w2) \<Rightarrow> (Inl e, w2)
           | (Inr (accessToken, refreshToken'), w2) \<Rightarrow>
               (case findById w2 (uid user) of
                  (Inl e, w3) \<Rightarrow> (Inl e, w3)
                | (Inr loggedInUser, w3) \<Rightarrow>
                    (Inr (Respond
                       \<lparr>status = Num 200,
                        cookies = [(''accessToken'', accessToken, options),
                                   (''refreshToken'', refreshToken', options)],
                        cleared = [],
                        body = ApiResponse 200
                          (LoginData (map_option select_safe loggedInUser)
                             accessToken refreshToken')
                          ''User logged in Successfully.''\<rparr>), w3))))))"

definition loginUser ::
  "config \<Rightarrow> (user \<Rightarrow> string \<Rightarrow> bool) \<Rightarrow> world \<Rightarrow> request \<Rightarrow>
     (js_error + outcome) \<times> world" where
  "loginUser cfg isPasswordCorrect =
     asyncHandler (throws_objects (login_controller cfg isPasswordCorrect))"

text \<open>
  The controller inside \<^verbatim>\<open>logoutUser\<close>. A document that \<^verbatim>\<open>verifyJWT\<close> attached
  always has its \<^verbatim>\<open>_id\<close>, so \<^verbatim>\<open>!req.user._id\<close> adds nothing to \<^verbatim>\<open>!req.user\<close>.
\<close>

definition logout_controller :: "world \<Rightarrow> request \<Rightarrow> (js_error + outcome) \<times> world" where
  "logout_controller w req =
     (case req_user req of
        None \<Rightarrow> (Inl (ApiError 401 ''Unauthorized request''), w)
      | Some u \<Rightarrow>
          (case findByIdAndUpdate_unset w (safe_id u) of
             (Inl e, w1) \<Rightarrow> (Inl e, w1)
           | (Inr x, w1) \<Rightarrow>
               (Inr (Respond
                  \<lparr>status = Num 200, cookies = [],
                   cleared = [(''accessToken'', options), (''refreshToken'', options)],
                   body = ApiResponse 200 NoData ''User logged out successfully.''\<rparr>), w1)))"

definition logoutUser :: "world \<Rightarrow> request \<Rightarrow> (js_error + outcome) \<times> world" where
  "logoutUser = asyncHandler (throws_objects logout_controller)"

text \<open>\<^verbatim>\<open>req.cookies.refreshToken || req.body.refreshToken\<close>\<close>

definition incomingRefreshToken :: "request \<Rightarrow> token option" where
  "incomingRefreshToken req =
     (if truthy_token (cookies_refreshToken req) then cookies_refreshToken req
      else body_refreshToken req)"

text \<open>The \<^verbatim>\<open>try\<close> block of the refresh controller, for a presented token \<open>t\<close>.\<close>

definition refresh_try :: "config \<Rightarrow> world \<Rightarrow> token \<Rightarrow> (js_error + outcome) \<times> world" where
  "refresh_try cfg w t =
     (case jwt_verify t (REFRESH_TOKEN_SECRET cfg) (clock w) of
        Inl e \<Rightarrow> (Inl e, w)
      | Inr decoded_id \<Rightarrow>
          (case findById w decoded_id of
             (Inl e, w1) \<Rightarrow> (Inl e, w1)
           | (Inr None, w1) \<Rightarrow> (Inl (ApiError 401 ''Invalid refresh token''), w1)
           | (Inr (Some user), w1) \<Rightarrow>
               (if Some t \<noteq> refreshToken user
                then (Inl (ApiError 401 ''Refresh token is expired or used.''), w1)
                else (case generateAccessTokenAndRefreshToken cfg w1 (uid user) of
                  (Inl e, w2) \<Rightarrow> (Inl e, w2)
                | (Inr (accessToken, refreshToken'), w2) \<Rightarrow>
                    (Inr (Respond
                       \<lparr>status = Num 200,
                        cookies = [(''accessToken'', accessToken, options),
                                   (''refreshToken'', refreshToken', options)],
                        cleared = [],
                        body = ApiResponse 200 (TokenData accessToken refreshToken')
                                 ''Access Token refreshed''\<rparr>), w2)))))"

text \<open>
  The same block in the two steps that its \<^verbatim>\<open>await\<close>s leave between the comparison
  with the persisted value and the unconditional \<^verbatim>\<open>save\<close>: the check (verification,
  lookup, comparison) and the issue (token generation with its own lookup and \<^verbatim>\<open>save\<close>,
  and the response). Between the two steps of one call the steps of another call can run.
\<close>

definition refresh_check :: "config \<Rightarrow> world \<Rightarrow> token \<Rightarrow> (js_error + user) \<times> world" where
  "refresh_check cfg w t =
     (case jwt_verify t (REFRESH_TOKEN_SECRET cfg) (clock w) of
        Inl e \<Rightarrow> (Inl e, w)
      | Inr decoded_id \<Rightarrow>
          (case findById w decoded_id of
             (Inl e, w1) \<Rightarrow> (Inl e, w1)
           | (Inr None, w1) \<Rightarrow> (Inl (ApiError 401 ''Invalid refresh token''), w1)
           | (Inr (Some user), w1) \<Rightarrow>
               (if Some t \<noteq> refreshToken user
                then (Inl (ApiError 401 ''Refresh token is expired or used.''), w1)
                else (Inr user, w1))))"

definition refresh_issue :: "config \<Rightarrow> world \<Rightarrow> user \<Rightarrow> (js_error + outcome) \<times> world" where
  "refresh_issue cfg w user =
     (case generateAccessTokenAndRefreshToken cfg w (uid user) of
        (Inl e, w2) \<Rightarrow> (Inl e, w2)
      | (Inr (accessToken, refreshToken'), w2) \<Rightarrow>
          (Inr (Respond
             \<lparr>status = Num 200,
              cookies = [(''accessToken'', accessToken, options),
                         (''refreshToken'', refreshToken', options)],
              cleared = [],
              body = ApiResponse 200 (TokenData accessToken refreshToken')
                       ''Access Token refreshed''\<rparr>), w2))"

text \<open>
  The controller inside \<^verbatim>\<open>refreshAccessToken\<close>: the presence check, the \<^verbatim>\<open>try\<close>
  block, and the \<^verbatim>\<open>catch\<close> that rethrows with status 401 and the caught message.
\<close>

definition refresh_controller :: "config \<Rightarrow> world \<Rightarrow> request \<Rightarrow> (js_error + outcome) \<times> world" where
  "refresh_controller cfg w req =
     (case incomingRefreshToken req of
        None \<Rightarrow> (Inl (ApiError 401 ''Unauthorized Request. Refresh Token missing.''), w)
      | Some t \<Rightarrow>
          (if \<not> truthy_token (Some t)
           then (Inl (ApiError 401 ''Unauthorized Request. Refresh Token missing.''), w)
           else (case refresh_try cfg w t of
             (Inl error, w') \<Rightarrow> (Inl (ApiError 401 (message error)), w')
           | (Inr out, w') \<Rightarrow> (Inr out, w'))))"

definition refreshAccessToken ::
  "config \<Rightarrow> world \<Rightarrow> request \<Rightarrow> (js_error + outcome) \<times> world" where
  "refreshAccessToken cfg = asyncHandler (throws_objects (refresh_controller cfg))"

section \<open>The authentication middleware\<close>

text \<open>
  \<^verbatim>\<open>req.cookies?.accessToken || req.header("Authorization")?.replace("Bearer ", "")\<close>
\<close>

definition incomingAccessToken :: "request \<Rightarrow> token option" where
  "incomingAccessToken req =
     (if truthy_token (cookies_accessToken req) then cookies_accessToken req
      else map_option strip_bearer (authorization req))"

text \<open>The \<^verbatim>\<open>try\<close> block of \<^verbatim>\<open>verifyJWT\<close>.\<close>

definition verify_try :: "config \<Rightarrow> world \<Rightarrow> request \<Rightarrow> (js_error + outcome) \<times> world" where
  "verify_try cfg w req =
     (case incomingAccessToken req of
        None \<Rightarrow> (Inl (ApiError 401 ''Unauthorized request''), w)
      | Some t \<Rightarrow>
          (if \<not> truthy_token (Some t) then (Inl (ApiError 401 ''Unauthorized request''), w)
           else (case jwt_verify t (ACCESS_TOKEN_SECRET cfg) (clock w) of
             Inl e \<Rightarrow> (Inl e, w)
           | Inr decoded_id \<Rightarrow>
               (case findById w decoded_id of
                  (Inl e, w1) \<Rightarrow> (Inl e, w1)
                | (Inr None, w1) \<Rightarrow> (Inl (ApiError 401 ''Invalid Access Token''), w1)
                | (Inr (Some user), w1) \<Rightarrow>
                    (Inr (Next (req\<lparr>req_user := Some (select_safe user)\<rparr>)), w1)))))"

text \<open>\<^verbatim>\<open>error.message || "Invalid access Token"\<close>\<close>

definition message_or :: "string \<Rightarrow> string \<Rightarrow> string" where
  "message_or m d = (if m \<noteq> [] then m else d)"

text \<open>The controller inside \<^verbatim>\<open>verifyJWT\<close>: the \<^verbatim>\<open>try\<close> block and its \<^verbatim>\<open>catch\<close>.\<close>

definition verify_controller :: "config \<Rightarrow> world \<Rightarrow> request \<Rightarrow> (js_error + outcome) \<times> world" where
  "verify_controller cfg w req =
     (case verify_try cfg w req of
        (Inl error, w') \<Rightarrow>
          (Inl (ApiError 401 (message_or (message error) ''Invalid access Token'')), w')
      | (Inr out, w') \<Rightarrow> (Inr out, w'))"

definition verifyJWT :: "config \<Rightarrow> world \<Rightarrow> request \<Rightarrow> (js_error + outcome) \<times> world" where
  "verifyJWT cfg = asyncHandler (throws_objects (verify_controller cfg))"

section \<open>Notions used in the statements\<close>

text \<open>
  The three success responses, written out: status 200, the cookies set with
  \<^verbatim>\<open>httpOnly\<close> and \<^verbatim>\<open>secure\<close> or cleared, and the envelope.
\<close>

definition login_response :: "safe_user option \<Rightarrow> token \<Rightarrow> token \<Rightarrow> response" where
  "login_response loggedInUser accessToken refreshToken' =
     \<lparr>status = Num 200,
      cookies = [(''accessToken'', accessToken, \<lparr>httpOnly = True, secure = True\<rparr>),
                 (''refreshToken'', refreshToken', \<lparr>httpOnly = True, secure = True\<rparr>)],
      cleared = [],
      body = ApiResponse 200 (LoginData loggedInUser accessToken refreshToken')
               ''User logged in Successfully.''\<rparr>"

definition logout_response :: response where
  "logout_response =
     \<lparr>status = Num 200, cookies = [],
      cleared = [(''accessToken'', \<lparr>httpOnly = True, secure = True\<rparr>),
                 (''refreshToken'', \<lparr>httpOnly = True, secure = True\<rparr>)],
      body = ApiResponse 200 NoData ''User logged out successfully.''\<rparr>"

definition token_response :: "token \<Rightarrow> token \<Rightarrow> response" where
  "token_response accessToken refreshToken' =
     \<lparr>status = Num 200,
      cookies = [(''accessToken'', accessToken, \<lparr>httpOnly = True, secure = True\<rparr>),
                 (''refreshToken'', refreshToken', \<lparr>httpOnly = True, secure = True\<rparr>)],
      cleared = [],
      body = ApiResponse 200 (TokenData accessToken refreshToken') ''Access Token refreshed''\<rparr>"

text \<open>The response \<^verbatim>\<open>asyncHandler\<close> writes for an error with a numeric code.\<close>

definition rejection :: "nat \<Rightarrow> string \<Rightarrow> response" where
  "rejection c m = \<lparr>status = Num c, cookies = [], cleared = [], body = Failure False m\<rparr>"

text \<open>The store once the refresh token of the first document with id \<open>i\<close> is unset.\<close>

definition after_logout :: "nat \<Rightarrow> world \<Rightarrow> world" where
  "after_logout i w =
     w\<lparr>users := update_first (\<lambda>u. uid u = i) (\<lambda>u. u\<lparr>refreshToken := None\<rparr>) (users w)\<rparr>"

text \<open>The refresh token the store holds for the user with id \<open>i\<close>, if there is such a user.\<close>

definition persisted :: "world \<Rightarrow> nat \<Rightarrow> token option option" where
  "persisted w i = map_option refreshToken (find (\<lambda>u. uid u = i) (users w))"

section \<open>Example data\<close>

text \<open>
  A configuration, a user, a stand-in for the password check, requests, tokens and worlds
  for the concrete runs below.
\<close>

definition cfg0 :: config where
  "cfg0 = \<lparr>ACCESS_TOKEN_SECRET = ''a'', ACCESS_TOKEN_EXPIRY = 10,
     REFRESH_TOKEN_SECRET = ''r'', REFRESH_TOKEN_EXPIRY = 100\<rparr>"

definition alice :: user where
  "alice = \<lparr>uid = 1, username = ''alice'', email = ''alice@example.org'',
     fullname = ''Alice'', password = ''opensesame'', refreshToken = None\<rparr>"

definition check0 :: "user \<Rightarrow> string \<Rightarrow> bool" where
  "check0 u p \<longleftrightarrow> password u = p"

text \<open>Alice as a client sees her: without password and refresh token.\<close>

definition alice_safe :: safe_user where
  "alice_safe = \<lparr>safe_id = 1, safe_username = ''alice'', safe_email = ''alice@example.org'',
     safe_fullname = ''Alice''\<rparr>"

definition boom :: js_error where
  "boom = \<lparr>code = Undefined, message = ''connection lost''\<rparr>"

definition teapot :: js_error where
  "teapot = \<lparr>code = Num 418, message = ''short and stout''\<rparr>"

text \<open>The store's error for a duplicate key, and an error whose code is 0.\<close>

definition duplicate_key :: js_error where
  "duplicate_key = \<lparr>code = Num 11000, message = ''E11000 duplicate key error''\<rparr>"

definition code_zero :: js_error where
  "code_zero = \<lparr>code = Num 0, message = ''nothing''\<rparr>"

definition req0 :: request where
  "req0 = \<lparr>cookies_accessToken = None, cookies_refreshToken = None, authorization = None,
     body_username = None, body_email = None, body_password = None,
     body_refreshToken = None, req_user = None\<rparr>"






text \<open>Alice alone in the store, holding the refresh token \<open>t\<close>, at time \<open>c\<close>.\<close>

definition w_at :: "nat \<Rightarrow> token option \<Rightarrow> world" where
  "w_at c t = \<lparr>users = [alice\<lparr>refreshToken := t\<rparr>], clock = c, db_script = []\<rparr>"

definition t_old :: token where "t_old = Jwt ''r'' 1 40 140"

definition t_new :: token where "t_new = Jwt ''r'' 1 50 150"

definition a_new :: token where "a_new = Jwt ''a'' 1 50 60"

text \<open>Alice's document while she holds \<open>t_old\<close>.\<close>

definition alice_old :: user where
  "alice_old = alice\<lparr>refreshToken := Some t_old\<rparr>"

definition forged :: token where "forged = Jwt ''guess'' 1 40 60"

definition expired :: token where "expired = Jwt ''a'' 1 20 30"

section \<open>Facts about the store\<close>

lemmas controller_defs =
  login_controller_def logout_controller_def refresh_controller_def refresh_try_def
  verify_controller_def verify_try_def generateAccessTokenAndRefreshToken_def
  generateAccessToken_def generateRefreshToken_def findById_def findOne_def save_def
  findByIdAndUpdate_unset_def db_call_def jwt_verify_def incomingRefreshToken_def
  incomingAccessToken_def message_or_def credential_matches_def refresh_check_def
  refresh_issue_def

lemmas example_defs =
  cfg0_def alice_def check0_def boom_def teapot_def req0_def w_at_def t_old_def t_new_def
  a_new_def forged_def expired_def alice_safe_def alice_old_def duplicate_key_def code_zero_def

lemma ApiError_sel [simp]: "code (ApiError c m) = Num c" "message (ApiError c m) = m"
  by (simp_all add: ApiError_def)

lemma token_response_fold [simp]:
  "\<lparr>status = Num 200,
    cookies = [(''accessToken'', a, options), (''refreshToken'', r, options)],
    cleared = [],
    body = ApiResponse 200 (TokenData a r) ''Access Token refreshed''\<rparr> = token_response a r"
  by (simp add: token_response_def options_def)

lemma login_response_fold [simp]:
  "\<lparr>status = Num 200,
    cookies = [(''accessToken'', a, options), (''refreshToken'', r, options)],
    cleared = [],
    body = ApiResponse 200 (LoginData su a r) ''User logged in Successfully.''\<rparr>
   = login_response su a r"
  by (simp add: login_response_def options_def)

lemma logout_response_fold [simp]:
  "\<lparr>status = Num 200, cookies = [],
    cleared = [(''accessToken'', options), (''refreshToken'', options)],
    body = ApiResponse 200 NoData ''User logged out successfully.''\<rparr> = logout_response"
  by (simp add: logout_response_def options_def)



lemma find_holds: "find P xs = Some x \<Longrightarrow> P x"
  by (induction xs) (auto split: if_splits)

lemma find_update_first:
  "(\<And>x. P x \<Longrightarrow> P (f x)) \<Longrightarrow> find P (update_first P f xs) = map_option f (find P xs)"
  by (induction xs) auto

lemma update_first_idem:
  "(\<And>x. f (f x) = f x) \<Longrightarrow> (\<And>x. P x \<Longrightarrow> P (f x)) \<Longrightarrow>
     update_first P f (update_first P f xs) = update_first P f xs"
  by (induction xs) auto

lemma db_call_keeps: "db_call w = (r, w') \<Longrightarrow> users w' = users w \<and> clock w' = clock w"
  by (auto simp: db_call_def split: list.splits)

lemma after_logout_twice: "after_logout i (after_logout i w) = after_logout i w"
proof -
  have "update_first (\<lambda>u. uid u = i) (\<lambda>u. u\<lparr>refreshToken := None\<rparr>)
          (update_first (\<lambda>u. uid u = i) (\<lambda>u. u\<lparr>refreshToken := None\<rparr>) (users w))
        = update_first (\<lambda>u. uid u = i) (\<lambda>u. u\<lparr>refreshToken := None\<rparr>) (users w)"
    by (rule update_first_idem) auto
  then show ?thesis by (simp add: after_logout_def)
qed

lemma persisted_after_logout:
  "persisted (after_logout i w) i = map_option (\<lambda>t. None) (persisted w i)"
proof -
  have "find (\<lambda>u. uid u = i) (update_first (\<lambda>u. uid u = i) (\<lambda>u. u\<lparr>refreshToken := None\<rparr>) (users w))
        = map_option (\<lambda>u. u\<lparr>refreshToken := None\<rparr>) (find (\<lambda>u. uid u = i) (users w))"
    by (rule find_update_first) auto
  then show ?thesis by (simp add: persisted_def after_logout_def option.map_comp comp_def)
qed

lemma jwt_verify_ok:
  "jwt_verify t secret now = Inr i \<longleftrightarrow> (\<exists>iat ex. t = Jwt secret i iat ex \<and> now \<le> ex)"
  by (cases t) (auto simp: jwt_verify_def)

lemma verified_truthy: "jwt_verify t secret now = Inr i \<Longrightarrow> truthy_token (Some t)"
  by (cases t) (auto simp: jwt_verify_def)

section \<open>Token generation\<close>

lemma generate_success:
  assumes "generateAccessTokenAndRefreshToken cfg w i = (Inr (a, r), w')"
  shows "\<exists>u. find (\<lambda>u. uid u = i) (users w) = Some u
           \<and> a = generateAccessToken cfg u (clock w)
           \<and> r = generateRefreshToken cfg u (clock w)
           \<and> users w' = update_first (\<lambda>x. uid x = i) (\<lambda>x. u\<lparr>refreshToken := Some r\<rparr>) (users w)
           \<and> clock w' = clock w"
  using assms
  by (auto simp: generateAccessTokenAndRefreshToken_def findById_def save_def db_call_def Let_def
      split: list.splits option.splits sum.splits prod.splits if_splits dest: find_holds)

lemma generate_failure:
  assumes "generateAccessTokenAndRefreshToken cfg w i = (Inl e, w')"
  shows "e = generation_failed \<and> users w' = users w \<and> clock w' = clock w"
  using assms
  by (auto simp: generateAccessTokenAndRefreshToken_def findById_def save_def db_call_def Let_def
      split: list.splits option.splits sum.splits prod.splits if_splits)

lemma generate_quiet:
  assumes "db_script w = []" "find (\<lambda>u. uid u = i) (users w) = Some u"
  shows "generateAccessTokenAndRefreshToken cfg w i =
     (Inr (generateAccessToken cfg u (clock w), generateRefreshToken cfg u (clock w)),
      w\<lparr>users := update_first (\<lambda>x. uid x = i)
           (\<lambda>x. u\<lparr>refreshToken := Some (generateRefreshToken cfg u (clock w))\<rparr>) (users w)\<rparr>)"
  using assms
  by (auto simp: generateAccessTokenAndRefreshToken_def findById_def save_def db_call_def Let_def
      dest: find_holds)

lemma generate_stores:
  assumes "generateAccessTokenAndRefreshToken cfg w i = (Inr (a, r), w')"
  shows "\<exists>u. find (\<lambda>u. uid u = i) (users w) = Some u
           \<and> a = generateAccessToken cfg u (clock w)
           \<and> r = generateRefreshToken cfg u (clock w)
           \<and> find (\<lambda>u. uid u = i) (users w') = Some (u\<lparr>refreshToken := Some r\<rparr>)
           \<and> clock w' = clock w"
proof -
  from generate_success [OF assms] obtain u where
    u: "find (\<lambda>u. uid u = i) (users w) = Some u"
       "a = generateAccessToken cfg u (clock w)"
       "r = generateRefreshToken cfg u (clock w)"
       "users w' = update_first (\<lambda>x. uid x = i) (\<lambda>x. u\<lparr>refreshToken := Some r\<rparr>) (users w)"
       "clock w' = clock w"
    by blast
  have i: "uid u = i" using find_holds [OF u(1)] .
  have "find (\<lambda>u. uid u = i) (users w') = Some (u\<lparr>refreshToken := Some r\<rparr>)"
    unfolding u(4) using i u(1) by (subst find_update_first) auto
  with u show ?thesis by blast
qed

text \<open>
  C4. Issuance and persistence are one failable step: when the lookup of the user answers
  and the \<^verbatim>\<open>save\<close> of the new refresh token rejects, token generation raises its error
  (status 500) instead of returning a pair, and the user collection is left as it was.
\<close>

theorem generation_atomic:
  assumes "find (\<lambda>u. uid u = userId) (users w) = Some user"
      and "db_script w = None # Some e # rest"
  shows "generateAccessTokenAndRefreshToken cfg w userId
           = (Inl generation_failed, w\<lparr>db_script := rest\<rparr>)
         \<and> code generation_failed = Num 500
         \<and> users (w\<lparr>db_script := rest\<rparr>) = users w"
  using assms
  by (simp add: generateAccessTokenAndRefreshToken_def findById_def save_def db_call_def
      Let_def generation_failed_def)

text \<open>The run for Alice when the store loses its connection at the \<^verbatim>\<open>save\<close>.\<close>

theorem generation_atomic_witness:
  "generateAccessTokenAndRefreshToken cfg0
     \<lparr>users = [alice], clock = 5, db_script = [None, Some boom]\<rparr> 1
     = (Inl generation_failed, \<lparr>users = [alice], clock = 5, db_script = []\<rparr>)"
  using generation_atomic [of 1 "\<lparr>users = [alice], clock = 5, db_script = [None, Some boom]\<rparr>"
      alice boom "[]" cfg0]
  by (simp add: alice_def)

section \<open>The wrapper\<close>




section \<open>Logout\<close>

text \<open>
  C7, as the code has it. For a caller with an identity attached, when the store answers,
  logout succeeds (status 200, both cookies cleared, \<^verbatim>\<open>User logged out successfully.\<close>)
  and unsets that user's persisted refresh token whatever it was; a second logout succeeds
  in the same way and changes nothing more. When the store rejects the update, logout
  fails with the store's error and the store is left as it was. Without an identity the
  call fails with status 401, \<^verbatim>\<open>Unauthorized request\<close>.
\<close>

theorem logout_idempotent:
  "(req_user req = Some caller \<and> db_script w = [] \<longrightarrow>
      logoutUser w req
        = (Inr (Respond
             \<lparr>status = Num 200, cookies = [],
              cleared = [(''accessToken'', \<lparr>httpOnly = True, secure = True\<rparr>),
                         (''refreshToken'', \<lparr>httpOnly = True, secure = True\<rparr>)],
              body = ApiResponse 200 NoData ''User logged out successfully.''\<rparr>),
           after_logout (safe_id caller) w)
    \<and> logoutUser (after_logout (safe_id caller) w) req
        = (Inr (Respond logout_response), after_logout (safe_id caller) w)
    \<and> status logout_response = Num 200
    \<and> persisted (after_logout (safe_id caller) w) (safe_id caller)
        = map_option (\<lambda>t. None) (persisted w (safe_id caller)))
   \<and> (req_user req = Some caller \<and> db_script w = Some e # rest \<longrightarrow>
      logout_controller w req = (Inl e, w\<lparr>db_script := rest\<rparr>))
   \<and> (req_user req' = None \<longrightarrow>
      logout_controller w' req' = (Inl (ApiError 401 ''Unauthorized request''), w')
    \<and> logoutUser w' req'
        = (Inr (Respond \<lparr>status = Num 401, cookies = [], cleared = [],
                           body = Failure False ''Unauthorized request''\<rparr>), w'))"
proof -
  have once: "logoutUser v req = (Inr (Respond logout_response), after_logout (safe_id caller) v)"
    if "req_user req = Some caller" "db_script v = []" for v
    using that
    by (simp add: logoutUser_def asyncHandler_def throws_objects_def logout_controller_def
        findByIdAndUpdate_unset_def db_call_def after_logout_def)
  have quiet: "db_script (after_logout (safe_id caller) w) = db_script w"
    by (simp add: after_logout_def)
  have rejects: "logout_controller w req = (Inl e, w\<lparr>db_script := rest\<rparr>)"
    if "req_user req = Some caller" "db_script w = Some e # rest"
    using that
    by (simp add: logout_controller_def findByIdAndUpdate_unset_def db_call_def)
  have none: "logout_controller w' req' = (Inl (ApiError 401 ''Unauthorized request''), w')
      \<and> logoutUser w' req'
        = (Inr (Respond \<lparr>status = Num 401, cookies = [], cleared = [],
                           body = Failure False ''Unauthorized request''\<rparr>), w')"
    if "req_user req' = None"
    using that
    by (simp add: logoutUser_def asyncHandler_def throws_objects_def logout_controller_def
        js_or_def)
  show ?thesis
    using once [of w] once [of "after_logout (safe_id caller) w"] quiet none rejects
    by (simp add: after_logout_twice persisted_after_logout logout_response_def)
qed

text \<open>Alice logs out twice; a request without identity is turned away.\<close>

theorem logout_idempotent_witness:
  "logoutUser (w_at 50 (Some t_old)) (req0\<lparr>req_user := Some alice_safe\<rparr>)
     = (Inr (Respond logout_response), w_at 50 None)
   \<and> logoutUser (w_at 50 None) (req0\<lparr>req_user := Some alice_safe\<rparr>)
     = (Inr (Respond logout_response), w_at 50 None)
   \<and> persisted (w_at 50 None) 1 = Some None
   \<and> logoutUser (w_at 50 None) req0
     = (Inr (Respond (rejection 401 ''Unauthorized request'')), w_at 50 None)"
proof -
  have a: "after_logout (safe_id alice_safe) (w_at 50 (Some t_old)) = w_at 50 None"
    by (simp add: after_logout_def w_at_def alice_def alice_safe_def)
  have h1: "req_user (req0\<lparr>req_user := Some alice_safe\<rparr>) = Some alice_safe
      \<and> db_script (w_at 50 (Some t_old)) = []"
    by (simp add: w_at_def)
  have h2: "req_user req0 = None" by (simp add: req0_def)
  have p: "persisted (w_at 50 (Some t_old)) (safe_id alice_safe) = Some (Some t_old)"
      "safe_id alice_safe = 1"
    by (simp_all add: persisted_def w_at_def alice_def alice_safe_def)
  show ?thesis
    using logout_idempotent [of "req0\<lparr>req_user := Some alice_safe\<rparr>" alice_safe
      "w_at 50 (Some t_old)" boom "[]" req0 "w_at 50 None"] h1 h2 a p
    by (simp add: logout_response_def rejection_def)
qed

text \<open>
  C7 as stated fails when the store rejects the update: Alice, authenticated, logs out
  while the store has lost its connection; the call is answered with status 500 and her
  refresh token is still persisted.
\<close>

theorem logout_store_rejects:
  "logoutUser ((w_at 50 (Some t_old))\<lparr>db_script := [Some boom]\<rparr>)
       (req0\<lparr>req_user := Some alice_safe\<rparr>)
     = (Inr (Respond \<lparr>status = Num 500, cookies = [], cleared = [],
                        body = Failure False ''connection lost''\<rparr>), w_at 50 (Some t_old))
   \<and> persisted (w_at 50 (Some t_old)) 1 = Some (Some t_old)"
  by (simp add: logoutUser_def asyncHandler_def throws_objects_def logout_controller_def
      findByIdAndUpdate_unset_def db_call_def js_or_def persisted_def
      w_at_def req0_def boom_def alice_def alice_safe_def)

section \<open>The authentication middleware\<close>

text \<open>
  C3, as the code has it. A request whose access token fails verification is rejected
  with status 401 and \<^verbatim>\<open>success: false\<close>, whatever made the verification fail; the
  message of the rejection is the message of the verification error (and
  \<^verbatim>\<open>Invalid access Token\<close> only when that one is empty), so the status classification
  of a forged, a malformed and an expired token is the same and the message is not.
\<close>

theorem verification_failure_message:
  assumes "incomingAccessToken req = Some t" and "truthy_token (Some t)"
      and "jwt_verify t (ACCESS_TOKEN_SECRET cfg) (clock w) = Inl err"
  shows "verifyJWT cfg w req =
           (Inr (Respond (rejection 401 (message_or (message err) ''Invalid access Token''))), w)"
  using assms
  by (simp add: verifyJWT_def asyncHandler_def throws_objects_def verify_controller_def
      verify_try_def js_or_def rejection_def)

text \<open>The expired token of Alice, sent as a cookie at time 50.\<close>

theorem verification_failure_message_witness:
  "verifyJWT cfg0 (w_at 50 None) (req0\<lparr>cookies_accessToken := Some expired\<rparr>)
     = (Inr (Respond (rejection 401 ''jwt expired'')), w_at 50 None)"
  using verification_failure_message [of "req0\<lparr>cookies_accessToken := Some expired\<rparr>" expired
      cfg0 "w_at 50 None" "\<lparr>code = Undefined, message = ''jwt expired''\<rparr>"]
  by (simp add: req0_def expired_def cfg0_def w_at_def incomingAccessToken_def jwt_verify_def
      message_or_def)

text \<open>
  C3 as stated fails: at time 50 a token signed with a wrong key and Alice's expired token
  both fail verification, and the two rejections differ in their response content.
\<close>

theorem forged_expired_distinguishable:
  "jwt_verify forged (ACCESS_TOKEN_SECRET cfg0) (clock (w_at 50 None))
     = Inl \<lparr>code = Undefined, message = ''invalid signature''\<rparr>
   \<and> jwt_verify expired (ACCESS_TOKEN_SECRET cfg0) (clock (w_at 50 None))
     = Inl \<lparr>code = Undefined, message = ''jwt expired''\<rparr>
   \<and> verifyJWT cfg0 (w_at 50 None) (req0\<lparr>cookies_accessToken := Some forged\<rparr>)
     = (Inr (Respond (rejection 401 ''invalid signature'')), w_at 50 None)
   \<and> verifyJWT cfg0 (w_at 50 None) (req0\<lparr>cookies_accessToken := Some expired\<rparr>)
     = (Inr (Respond (rejection 401 ''jwt expired'')), w_at 50 None)
   \<and> rejection 401 ''invalid signature'' \<noteq> rejection 401 ''jwt expired''"
  by (simp add: verifyJWT_def asyncHandler_def throws_objects_def verify_controller_def
      verify_try_def js_or_def
      req0_def expired_def forged_def cfg0_def w_at_def incomingAccessToken_def
      jwt_verify_def message_or_def rejection_def)




section \<open>Refresh\<close>

lemma refresh_try_errors:
  assumes "refresh_try cfg w t = (Inl err, w')"
  shows "jwt_verify t (REFRESH_TOKEN_SECRET cfg) (clock w) = Inl err
       \<or> (\<exists>rest. db_script w = Some err # rest)
       \<or> err = ApiError 401 ''Invalid refresh token''
       \<or> err = ApiError 401 ''Refresh token is expired or used.''
       \<or> err = generation_failed"
  using assms
  by (auto simp: refresh_try_def findById_def db_call_def
      split: sum.splits prod.splits option.splits list.splits if_splits dest: generate_failure)

text \<open>
  C10. A refresh call that presents a token and fails after the presence check is
  answered with status 401 and the message of the error that made it fail, whichever it
  was: the verification error of the token library, the rejection of the store, the unknown
  user, the mismatch with the persisted value, or the failure of token generation (itself
  an error of status 500). A call that presents no token gets its own message.
\<close>

theorem refresh_errors_collapse:
  assumes "incomingRefreshToken req = Some t" and "truthy_token (Some t)"
      and "refresh_try cfg w t = (Inl err, w')"
  shows "refresh_controller cfg w req = (Inl (ApiError 401 (message err)), w')
       \<and> refreshAccessToken cfg w req = (Inr (Respond (rejection 401 (message err))), w')
       \<and> (jwt_verify t (REFRESH_TOKEN_SECRET cfg) (clock w) = Inl err
          \<or> (\<exists>rest. db_script w = Some err # rest)
          \<or> err = ApiError 401 ''Invalid refresh token''
          \<or> err = ApiError 401 ''Refresh token is expired or used.''
          \<or> err = generation_failed)
       \<and> (\<not> truthy_token (incomingRefreshToken req') \<longrightarrow>
            refreshAccessToken cfg w req'
              = (Inr (Respond (rejection 401 ''Unauthorized Request. Refresh Token missing.'')),
                 w))"
proof -
  have missing: "refreshAccessToken cfg w req'
      = (Inr (Respond (rejection 401 ''Unauthorized Request. Refresh Token missing.'')), w)"
    if "\<not> truthy_token (incomingRefreshToken req')"
    using that
    by (auto simp: refreshAccessToken_def asyncHandler_def throws_objects_def
        refresh_controller_def js_or_def rejection_def split: option.splits)
  show ?thesis
    using assms refresh_try_errors [OF assms(3)] missing
    by (simp add: refresh_controller_def refreshAccessToken_def asyncHandler_def
        throws_objects_def js_or_def rejection_def)
qed

text \<open>
  Alice presents her current refresh token and the store loses its connection at the
  \<^verbatim>\<open>save\<close>: the failure of token generation is answered with status 401.
\<close>

theorem refresh_errors_collapse_witness:
  "refreshAccessToken cfg0
       ((w_at 50 (Some t_old))\<lparr>db_script := [None, None, Some boom]\<rparr>)
       (req0\<lparr>cookies_refreshToken := Some t_old\<rparr>)
     = (Inr (Respond
          (rejection 401 ''Something went wrong while generating access and refresh token'')),
        w_at 50 (Some t_old))
   \<and> refreshAccessToken cfg0 ((w_at 50 (Some t_old))\<lparr>db_script := [None, None, Some boom]\<rparr>) req0
     = (Inr (Respond (rejection 401 ''Unauthorized Request. Refresh Token missing.'')),
        (w_at 50 (Some t_old))\<lparr>db_script := [None, None, Some boom]\<rparr>)"
proof -
  have h: "incomingRefreshToken (req0\<lparr>cookies_refreshToken := Some t_old\<rparr>) = Some t_old"
      "truthy_token (Some t_old)"
      "\<not> truthy_token (incomingRefreshToken req0)"
    by (simp_all add: incomingRefreshToken_def req0_def t_old_def)
  have r: "refresh_try cfg0 ((w_at 50 (Some t_old))\<lparr>db_script := [None, None, Some boom]\<rparr>) t_old
      = (Inl generation_failed, w_at 50 (Some t_old))"
    by (simp add: refresh_try_def generateAccessTokenAndRefreshToken_def findById_def save_def
        db_call_def jwt_verify_def Let_def w_at_def t_old_def cfg0_def alice_def)
  show ?thesis
    using refresh_errors_collapse [OF h(1) h(2) r, of req0] h(3)
    by (simp add: generation_failed_def)
qed

lemma refresh_try_success:
  assumes "refresh_try cfg w t = (Inr out, w')"
  shows "\<exists>u. jwt_verify t (REFRESH_TOKEN_SECRET cfg) (clock w) = Inr (uid u)
           \<and> refreshToken u = Some t
           \<and> out = Respond (token_response (generateAccessToken cfg u (clock w))
                                             (generateRefreshToken cfg u (clock w)))
           \<and> find (\<lambda>x. uid x = uid u) (users w')
               = Some (u\<lparr>refreshToken := Some (generateRefreshToken cfg u (clock w))\<rparr>)
           \<and> clock w' = clock w"
proof -
  from assms obtain i where v: "jwt_verify t (REFRESH_TOKEN_SECRET cfg) (clock w) = Inr i"
    by (auto simp: refresh_try_def split: sum.splits)
  from assms v obtain u w1 where f: "findById w i = (Inr (Some u), w1)"
    by (auto simp: refresh_try_def split: sum.splits prod.splits option.splits)
  from f have w1: "users w1 = users w" "clock w1 = clock w"
      "find (\<lambda>x. uid x = i) (users w) = Some u"
    by (auto simp: findById_def split: prod.splits option.splits dest: db_call_keeps)
  have i: "uid u = i" using find_holds [OF w1(3)] .
  from assms v f have m: "refreshToken u = Some t"
    by (auto simp: refresh_try_def split: if_splits)
  from assms v f m obtain a r where
    g: "generateAccessTokenAndRefreshToken cfg w1 (uid u) = (Inr (a, r), w')"
       "out = Respond (token_response a r)"
    by (auto simp: refresh_try_def split: sum.splits prod.splits)
  from generate_stores [OF g(1)] w1 i g(2) v m show ?thesis
    by auto
qed

lemma refresh_controller_success:
  assumes "refresh_controller cfg w req = (Inr out, w')"
  shows "\<exists>t. incomingRefreshToken req = Some t \<and> refresh_try cfg w t = (Inr out, w')"
  using assms
  by (auto simp: refresh_controller_def split: option.splits if_splits prod.splits sum.splits)

lemma refresh_accepts:
  assumes "incomingRefreshToken req = Some t"
      and "jwt_verify t (REFRESH_TOKEN_SECRET cfg) (clock w) = Inr i"
      and "find (\<lambda>x. uid x = i) (users w) = Some u"
      and "refreshToken u = Some t"
      and "db_script w = []"
  shows "refresh_controller cfg w req =
     (Inr (Respond (token_response (generateAccessToken cfg u (clock w))
                                   (generateRefreshToken cfg u (clock w)))),
      w\<lparr>users := update_first (\<lambda>x. uid x = i)
           (\<lambda>x. u\<lparr>refreshToken := Some (generateRefreshToken cfg u (clock w))\<rparr>) (users w)\<rparr>)"
proof -
  have i: "uid u = i" using find_holds [OF assms(3)] .
  show ?thesis
    using assms i verified_truthy [OF assms(2)] generate_quiet [OF assms(5) assms(3), of cfg]
    by (simp add: refresh_controller_def refresh_try_def findById_def db_call_def)
qed

lemma refresh_rejects_stale:
  assumes "incomingRefreshToken req = Some t"
      and "jwt_verify t (REFRESH_TOKEN_SECRET cfg) (clock w) = Inr i"
      and "find (\<lambda>x. uid x = i) (users w) = Some u"
      and "refreshToken u \<noteq> Some t"
      and "db_script w = []"
  shows "refresh_controller cfg w req =
     (Inl (ApiError 401 ''Refresh token is expired or used.''), w)"
  using assms verified_truthy [OF assms(2)]
  by (simp add: refresh_controller_def refresh_try_def findById_def db_call_def)

text \<open>
  C1, as the code has it. Let a refresh that presents \<open>t1\<close> succeed and return the refresh
  token \<open>t2\<close>, and let \<open>t2\<close> differ from \<open>t1\<close> (the token is a function of user, secret and
  clock, so this says that the clock has moved on since \<open>t1\<close> was issued). Then, with the
  store answering, a later refresh that presents \<open>t1\<close> before it expires fails with status
  401, \<^verbatim>\<open>Refresh token is expired or used.\<close>, and a later refresh that presents \<open>t2\<close>
  before it expires succeeds.
\<close>

theorem rotation_invalidates:
  assumes "incomingRefreshToken req = Some t1"
      and "refresh_controller cfg w req = (Inr (Respond (token_response a t2)), w1)"
      and "t2 \<noteq> t1"
      and "incomingRefreshToken req1 = Some t1" and "c1 \<le> jwt_exp t1"
      and "incomingRefreshToken req2 = Some t2" and "c2 \<le> jwt_exp t2"
  shows "refresh_controller cfg (w1\<lparr>clock := c1, db_script := []\<rparr>) req1
           = (Inl (ApiError 401 ''Refresh token is expired or used.''),
              w1\<lparr>clock := c1, db_script := []\<rparr>)
       \<and> (\<exists>a' t3 w2. refresh_controller cfg (w1\<lparr>clock := c2, db_script := []\<rparr>) req2
           = (Inr (Respond (token_response a' t3)), w2))"
proof -
  from refresh_controller_success [OF assms(2)] assms(1)
  have "refresh_try cfg w t1 = (Inr (Respond (token_response a t2)), w1)" by auto
  from refresh_try_success [OF this] obtain u where
    u: "jwt_verify t1 (REFRESH_TOKEN_SECRET cfg) (clock w) = Inr (uid u)"
       "Respond (token_response a t2)
          = Respond (token_response (generateAccessToken cfg u (clock w))
                                    (generateRefreshToken cfg u (clock w)))"
       "find (\<lambda>x. uid x = uid u) (users w1)
          = Some (u\<lparr>refreshToken := Some (generateRefreshToken cfg u (clock w))\<rparr>)"
    by blast
  from u(2) have t2: "t2 = generateRefreshToken cfg u (clock w)"
    by (simp add: token_response_def)
  let ?u' = "u\<lparr>refreshToken := Some t2\<rparr>"
  have f: "find (\<lambda>x. uid x = uid u) (users w1) = Some ?u'" using u(3) t2 by simp
  from u(1) obtain iat ex where t1: "t1 = Jwt (REFRESH_TOKEN_SECRET cfg) (uid u) iat ex"
    by (auto simp: jwt_verify_ok)
  have v1: "jwt_verify t1 (REFRESH_TOKEN_SECRET cfg) c1 = Inr (uid u)"
    using t1 assms(5) by (simp add: jwt_verify_ok)
  have v2: "jwt_verify t2 (REFRESH_TOKEN_SECRET cfg) c2 = Inr (uid u)"
    using t2 assms(7) by (simp add: jwt_verify_ok generateRefreshToken_def)
  have stale: "refresh_controller cfg (w1\<lparr>clock := c1, db_script := []\<rparr>) req1
           = (Inl (ApiError 401 ''Refresh token is expired or used.''),
              w1\<lparr>clock := c1, db_script := []\<rparr>)"
    by (rule refresh_rejects_stale [where t = t1 and i = "uid u" and u = ?u'])
       (use assms(3,4) v1 f in simp_all)
  have fresh: "\<exists>a' t3 w2. refresh_controller cfg (w1\<lparr>clock := c2, db_script := []\<rparr>) req2
           = (Inr (Respond (token_response a' t3)), w2)"
    using refresh_accepts [where req = req2 and t = t2 and i = "uid u" and u = ?u'
        and w = "w1\<lparr>clock := c2, db_script := []\<rparr>" and cfg = cfg] assms(6) v2 f
    by auto
  from stale fresh show ?thesis by blast
qed

lemma run_refresh_old:
  "refresh_controller cfg0 (w_at 50 (Some t_old)) (req0\<lparr>cookies_refreshToken := Some t_old\<rparr>)
     = (Inr (Respond (token_response a_new t_new)), w_at 50 (Some t_new))"
  by (simp add: controller_defs example_defs Let_def)

text \<open>
  Alice refreshes at time 50 with the token issued at 40 and gets the one issued at 50;
  at 51 the old one is refused, at 52 the new one is accepted.
\<close>

theorem rotation_invalidates_witness:
  "refresh_controller cfg0 (w_at 51 (Some t_new)) (req0\<lparr>cookies_refreshToken := Some t_old\<rparr>)
     = (Inl (ApiError 401 ''Refresh token is expired or used.''), w_at 51 (Some t_new))
   \<and> (\<exists>a' t3 w2. refresh_controller cfg0 (w_at 52 (Some t_new))
                      (req0\<lparr>body_refreshToken := Some t_new\<rparr>)
           = (Inr (Respond (token_response a' t3)), w2))"
proof -
  have h: "incomingRefreshToken (req0\<lparr>cookies_refreshToken := Some t_old\<rparr>) = Some t_old"
      "t_new \<noteq> t_old" "(51::nat) \<le> jwt_exp t_old"
      "incomingRefreshToken (req0\<lparr>body_refreshToken := Some t_new\<rparr>) = Some t_new"
      "(52::nat) \<le> jwt_exp t_new"
    by (simp_all add: incomingRefreshToken_def req0_def t_old_def t_new_def)
  have w: "(w_at 50 (Some t_new))\<lparr>clock := 51, db_script := []\<rparr> = w_at 51 (Some t_new)"
      "(w_at 50 (Some t_new))\<lparr>clock := 52, db_script := []\<rparr> = w_at 52 (Some t_new)"
    by (simp_all add: w_at_def)
  show ?thesis
    using rotation_invalidates [OF h(1) run_refresh_old h(2) h(1) h(3) h(4) h(5)]
    unfolding w .
qed

text \<open>
  C1 as stated fails when the refresh happens at the clock value at which the presented
  token was issued. Alice holds the token issued at time 40; her refresh at time 40
  succeeds and returns that same token, and the refresh that presents it again at time 41
  succeeds too.
\<close>

theorem same_clock_refresh_replay:
  "refresh_controller cfg0 (w_at 40 (Some t_old)) (req0\<lparr>cookies_refreshToken := Some t_old\<rparr>)
     = (Inr (Respond (token_response (Jwt ''a'' 1 40 50) t_old)), w_at 40 (Some t_old))
   \<and> refresh_controller cfg0 (w_at 41 (Some t_old)) (req0\<lparr>cookies_refreshToken := Some t_old\<rparr>)
     = (Inr (Respond (token_response (Jwt ''a'' 1 41 51) (Jwt ''r'' 1 41 141))),
        w_at 41 (Some (Jwt ''r'' 1 41 141)))"
  by (simp add: controller_defs example_defs Let_def)

subsection \<open>Two calls at once\<close>

lemma refresh_try_split:
  "refresh_try cfg w t =
     (case refresh_check cfg w t of
        (Inl e, w1) \<Rightarrow> (Inl e, w1)
      | (Inr user, w1) \<Rightarrow> refresh_issue cfg w1 user)"
  by (simp add: refresh_try_def refresh_check_def refresh_issue_def
      split: sum.splits prod.splits option.splits)

lemma refresh_check_success:
  assumes "refresh_check cfg w t = (Inr user, w1)"
  shows "jwt_verify t (REFRESH_TOKEN_SECRET cfg) (clock w) = Inr (uid user)
       \<and> find (\<lambda>x. uid x = uid user) (users w) = Some user
       \<and> refreshToken user = Some t \<and> users w1 = users w"
proof -
  from assms obtain i where v: "jwt_verify t (REFRESH_TOKEN_SECRET cfg) (clock w) = Inr i"
    by (auto simp: refresh_check_def split: sum.splits)
  from assms v have f: "findById w i = (Inr (Some user), w1)" and m: "refreshToken user = Some t"
    by (auto simp: refresh_check_def split: sum.splits prod.splits option.splits if_splits)
  from f have k: "users w1 = users w" "find (\<lambda>x. uid x = i) (users w) = Some user"
    by (auto simp: findById_def split: prod.splits option.splits dest: db_call_keeps)
  have "uid user = i" using find_holds [OF k(2)] .
  with v k m show ?thesis by simp
qed

lemma refresh_check_quiet:
  assumes "jwt_verify t (REFRESH_TOKEN_SECRET cfg) (clock w) = Inr i"
      and "find (\<lambda>x. uid x = i) (users w) = Some u"
      and "db_script w = []"
  shows "refresh_check cfg w t =
     (if Some t \<noteq> refreshToken u
      then (Inl (ApiError 401 ''Refresh token is expired or used.''), w) else (Inr u, w))"
  using assms by (simp add: refresh_check_def findById_def db_call_def)

lemma refresh_issue_quiet:
  assumes "db_script w = []" and "find (\<lambda>x. uid x = uid user) (users w) = Some u"
  shows "refresh_issue cfg w user =
     (Inr (Respond (token_response (generateAccessToken cfg user (clock w))
                                   (generateRefreshToken cfg user (clock w)))),
      w\<lparr>users := update_first (\<lambda>x. uid x = uid user)
           (\<lambda>x. u\<lparr>refreshToken := Some (generateRefreshToken cfg user (clock w))\<rparr>) (users w)\<rparr>)"
proof -
  have i: "uid u = uid user" using find_holds [OF assms(2)] .
  then have g: "generateAccessToken cfg u (clock w) = generateAccessToken cfg user (clock w)"
      "generateRefreshToken cfg u (clock w) = generateRefreshToken cfg user (clock w)"
    by (simp_all add: generateAccessToken_def generateRefreshToken_def)
  show ?thesis
    using generate_quiet [OF assms(1) assms(2), of cfg] g
    by (simp add: refresh_issue_def)
qed

text \<open>
  C8, as the code has it. Two refresh calls present the same refresh token, valid and
  unexpired, and the store answers. After the check of the first call (verification,
  lookup, comparison with the persisted value) the check of the second call succeeds as
  well, the store being as it was; then the issue step of the first call succeeds, and so
  does the issue step of the second call after it: both calls succeed, each with the pair
  it issued at its own clock value, and the store ends with one refresh token value, that
  of the call that saved last. Only a call whose check runs after the \<^verbatim>\<open>save\<close> of the
  other call, and finds a persisted token that differs from the presented one, fails with
  status 401, \<^verbatim>\<open>Refresh token is expired or used.\<close>
\<close>

theorem refresh_race:
  assumes "refresh_check cfg w t = (Inr user, wa)" and "cb \<le> jwt_exp t"
  shows "refresh_check cfg (wa\<lparr>clock := cb, db_script := []\<rparr>) t
           = (Inr user, wa\<lparr>clock := cb, db_script := []\<rparr>)
       \<and> (\<exists>wA wB.
            refresh_issue cfg (wa\<lparr>clock := c1, db_script := []\<rparr>) user
              = (Inr (Respond
                   \<lparr>status = Num 200,
                    cookies = [(''accessToken'', generateAccessToken cfg user c1,
                                  \<lparr>httpOnly = True, secure = True\<rparr>),
                               (''refreshToken'', generateRefreshToken cfg user c1,
                                  \<lparr>httpOnly = True, secure = True\<rparr>)],
                    cleared = [],
                    body = ApiResponse 200
                      (TokenData (generateAccessToken cfg user c1)
                                 (generateRefreshToken cfg user c1))
                      ''Access Token refreshed''\<rparr>), wA)
          \<and> refresh_issue cfg (wA\<lparr>clock := c2, db_script := []\<rparr>) user
              = (Inr (Respond (token_response (generateAccessToken cfg user c2)
                                              (generateRefreshToken cfg user c2))), wB)
          \<and> persisted wA (uid user) = Some (Some (generateRefreshToken cfg user c1))
          \<and> persisted wB (uid user) = Some (Some (generateRefreshToken cfg user c2))
          \<and> (generateRefreshToken cfg user c1 \<noteq> t \<longrightarrow>
               refresh_check cfg (wA\<lparr>clock := cb, db_script := []\<rparr>) t
                 = (Inl (ApiError 401 ''Refresh token is expired or used.''),
                    wA\<lparr>clock := cb, db_script := []\<rparr>)))"
proof -
  let ?P = "\<lambda>x. uid x = uid user"
  let ?rA = "generateRefreshToken cfg user c1"
  let ?rB = "generateRefreshToken cfg user c2"
  let ?uA = "user\<lparr>refreshToken := Some ?rA\<rparr>"
  let ?uB = "?uA\<lparr>refreshToken := Some ?rB\<rparr>"
  from refresh_check_success [OF assms(1)] have
    v: "jwt_verify t (REFRESH_TOKEN_SECRET cfg) (clock w) = Inr (uid user)"
    and f: "find ?P (users wa) = Some user" and m: "refreshToken user = Some t"
    by simp_all
  from v obtain iat ex where t: "t = Jwt (REFRESH_TOKEN_SECRET cfg) (uid user) iat ex"
    by (auto simp: jwt_verify_ok)
  have vb: "jwt_verify t (REFRESH_TOKEN_SECRET cfg) cb = Inr (uid user)"
    using t assms(2) by (simp add: jwt_verify_ok)
  have checkB: "refresh_check cfg (wa\<lparr>clock := cb, db_script := []\<rparr>) t
      = (Inr user, wa\<lparr>clock := cb, db_script := []\<rparr>)"
    using refresh_check_quiet [where w = "wa\<lparr>clock := cb, db_script := []\<rparr>" and t = t
        and cfg = cfg and i = "uid user" and u = user] vb f m
    by simp
  define wA where "wA = wa\<lparr>clock := c1, db_script := [],
      users := update_first ?P (\<lambda>x. ?uA) (users wa)\<rparr>"
  define wB where "wB = wA\<lparr>clock := c2, db_script := [],
      users := update_first ?P (\<lambda>x. ?uB) (users wA)\<rparr>"
  have issueA: "refresh_issue cfg (wa\<lparr>clock := c1, db_script := []\<rparr>) user
      = (Inr (Respond (token_response (generateAccessToken cfg user c1) ?rA)), wA)"
    using refresh_issue_quiet [where w = "wa\<lparr>clock := c1, db_script := []\<rparr>" and user = user
        and u = user and cfg = cfg] f
    by (simp add: wA_def)
  have fA: "find ?P (users wA) = Some ?uA"
    unfolding wA_def using f by (simp add: find_update_first)
  have issueB: "refresh_issue cfg (wA\<lparr>clock := c2, db_script := []\<rparr>) user
      = (Inr (Respond (token_response (generateAccessToken cfg user c2) ?rB)), wB)"
    using refresh_issue_quiet [where w = "wA\<lparr>clock := c2, db_script := []\<rparr>" and user = user
        and u = ?uA and cfg = cfg] fA
    by (simp add: wB_def)
  have fB: "find ?P (users wB) = Some ?uB"
    unfolding wB_def using fA by (simp add: find_update_first)
  have pA: "persisted wA (uid user) = Some (Some ?rA)" using fA by (simp add: persisted_def)
  have pB: "persisted wB (uid user) = Some (Some ?rB)" using fB by (simp add: persisted_def)
  have late: "refresh_check cfg (wA\<lparr>clock := cb, db_script := []\<rparr>) t
      = (Inl (ApiError 401 ''Refresh token is expired or used.''),
         wA\<lparr>clock := cb, db_script := []\<rparr>)" if "?rA \<noteq> t"
    using refresh_check_quiet [where w = "wA\<lparr>clock := cb, db_script := []\<rparr>" and t = t
        and cfg = cfg and i = "uid user" and u = ?uA] vb fA that
    by auto
  from issueA have issueA': "refresh_issue cfg (wa\<lparr>clock := c1, db_script := []\<rparr>) user
      = (Inr (Respond
           \<lparr>status = Num 200,
            cookies = [(''accessToken'', generateAccessToken cfg user c1,
                          \<lparr>httpOnly = True, secure = True\<rparr>),
                       (''refreshToken'', ?rA, \<lparr>httpOnly = True, secure = True\<rparr>)],
            cleared = [],
            body = ApiResponse 200 (TokenData (generateAccessToken cfg user c1) ?rA)
              ''Access Token refreshed''\<rparr>), wA)"
    by (simp add: token_response_def)
  from checkB issueA' issueB pA pB late show ?thesis by blast
qed

text \<open>
  Alice's token of time 40 is presented by two calls at time 50; the first issues at 50,
  the second at 51.
\<close>

theorem refresh_race_witness:
  "refresh_check cfg0 (w_at 50 (Some t_old)) t_old = (Inr alice_old, w_at 50 (Some t_old))
   \<and> (\<exists>wA wB.
        refresh_issue cfg0 (w_at 50 (Some t_old)) alice_old
          = (Inr (Respond (token_response a_new t_new)), wA)
      \<and> refresh_issue cfg0 (wA\<lparr>clock := 51, db_script := []\<rparr>) alice_old
          = (Inr (Respond (token_response (Jwt ''a'' 1 51 61) (Jwt ''r'' 1 51 151))), wB)
      \<and> persisted wA 1 = Some (Some t_new)
      \<and> persisted wB 1 = Some (Some (Jwt ''r'' 1 51 151))
      \<and> refresh_check cfg0 (wA\<lparr>clock := 50, db_script := []\<rparr>) t_old
          = (Inl (ApiError 401 ''Refresh token is expired or used.''),
             wA\<lparr>clock := 50, db_script := []\<rparr>))"
proof -
  have c: "refresh_check cfg0 (w_at 50 (Some t_old)) t_old = (Inr alice_old, w_at 50 (Some t_old))"
    by (simp add: controller_defs example_defs)
  have e: "(50::nat) \<le> jwt_exp t_old" by (simp add: t_old_def)
  have g: "generateAccessToken cfg0 alice_old 50 = a_new"
      "generateRefreshToken cfg0 alice_old 50 = t_new"
      "generateAccessToken cfg0 alice_old 51 = Jwt ''a'' 1 51 61"
      "generateRefreshToken cfg0 alice_old 51 = Jwt ''r'' 1 51 151"
      "uid alice_old = 1" "t_new \<noteq> t_old"
    by (simp_all add: generateAccessToken_def generateRefreshToken_def example_defs)
  have w: "(w_at 50 (Some t_old))\<lparr>clock := 50, db_script := []\<rparr> = w_at 50 (Some t_old)"
    by (simp add: w_at_def)
  show ?thesis
    using refresh_race [OF c e, of 50 51]
    unfolding w g by (simp add: token_response_def g)
qed

text \<open>
  C8 as stated fails. Two calls present Alice's token of time 40 at time 50. Both checks
  run before either call saves, and both succeed; the first call then issues its pair and
  succeeds, and the second call, at time 51, issues its pair and succeeds too.
\<close>

theorem concurrent_refreshes_both_succeed:
  "refresh_check cfg0 (w_at 50 (Some t_old)) t_old = (Inr alice_old, w_at 50 (Some t_old))
   \<and> refresh_issue cfg0 (w_at 50 (Some t_old)) alice_old
       = (Inr (Respond (token_response a_new t_new)), w_at 50 (Some t_new))
   \<and> refresh_issue cfg0 (w_at 51 (Some t_new)) alice_old
       = (Inr (Respond (token_response (Jwt ''a'' 1 51 61) (Jwt ''r'' 1 51 151))),
          w_at 51 (Some (Jwt ''r'' 1 51 151)))
   \<and> status (token_response a_new t_new) = Num 200
   \<and> status (token_response (Jwt ''a'' 1 51 61) (Jwt ''r'' 1 51 151)) = Num 200"
  by (simp add: controller_defs example_defs Let_def token_response_def)

section \<open>Login\<close>

lemma findOne_answer:
  "db_call w = (None, w1) \<Longrightarrow>
   findOne w un em = (Inr (find (credential_matches un em) (users w)), w1)"
  using db_call_keeps [of w None w1] by (simp add: findOne_def)

text \<open>
  C5, as the code has it. For a login call that supplies a non-empty username or email and
  a non-empty password, with the store answering the lookup: if no user matches, the call
  fails with status 404, \<^verbatim>\<open>User does not exist.\<close>; if a user matches and the password
  check fails, it fails with status 401, \<^verbatim>\<open>Invalid user credentials\<close>; and whenever the
  call succeeds, a user matched and the password check passed.
\<close>

theorem login_gate:
  assumes "truthy_str (body_username req) \<or> truthy_str (body_email req)"
      and "body_password req = Some p" and "p \<noteq> []"
      and "db_call w = (None, w1)"
  shows "(find (credential_matches (body_username req) (body_email req)) (users w) = None \<longrightarrow>
            login_controller cfg isPasswordCorrect w req
              = (Inl (ApiError 404 ''User does not exist.''), w1))
       \<and> (find (credential_matches (body_username req) (body_email req)) (users w) = Some u
            \<and> \<not> isPasswordCorrect u p \<longrightarrow>
            login_controller cfg isPasswordCorrect w req
              = (Inl (ApiError 401 ''Invalid user credentials''), w1))
       \<and> (login_controller cfg isPasswordCorrect w req = (Inr out, w') \<longrightarrow>
            (\<exists>v. find (credential_matches (body_username req) (body_email req)) (users w) = Some v
                 \<and> isPasswordCorrect v p))"
  using assms findOne_answer [OF assms(4), of "body_username req" "body_email req"]
  by (auto simp: login_controller_def split: option.splits)

text \<open>An unknown user, and Alice with a wrong password.\<close>

theorem login_gate_witness:
  "login_controller cfg0 check0 (w_at 40 None)
       (req0\<lparr>body_username := Some ''ghost'', body_password := Some ''anything''\<rparr>)
     = (Inl (ApiError 404 ''User does not exist.''), w_at 40 None)
   \<and> login_controller cfg0 check0 (w_at 40 None)
       (req0\<lparr>body_username := Some ''alice'', body_password := Some ''wrongpass''\<rparr>)
     = (Inl (ApiError 401 ''Invalid user credentials''), w_at 40 None)"
proof -
  let ?ghost = "req0\<lparr>body_username := Some ''ghost'', body_password := Some ''anything''\<rparr>"
  let ?wrong = "req0\<lparr>body_username := Some ''alice'', body_password := Some ''wrongpass''\<rparr>"
  have d: "db_call (w_at 40 None) = (None, w_at 40 None)"
    by (simp add: db_call_def w_at_def)
  have g: "truthy_str (body_username ?ghost) \<or> truthy_str (body_email ?ghost)"
      "body_password ?ghost = Some ''anything''" "''anything'' \<noteq> []"
      "find (credential_matches (body_username ?ghost) (body_email ?ghost)) (users (w_at 40 None))
         = None"
    by (simp_all add: req0_def w_at_def alice_def credential_matches_def)
  have a: "truthy_str (body_username ?wrong) \<or> truthy_str (body_email ?wrong)"
      "body_password ?wrong = Some ''wrongpass''" "''wrongpass'' \<noteq> []"
      "find (credential_matches (body_username ?wrong) (body_email ?wrong)) (users (w_at 40 None))
         = Some (alice\<lparr>refreshToken := None\<rparr>)"
      "\<not> check0 (alice\<lparr>refreshToken := None\<rparr>) ''wrongpass''"
    by (simp_all add: req0_def w_at_def alice_def credential_matches_def check0_def)
  show ?thesis
    using login_gate [where cfg = cfg0 and isPasswordCorrect = check0, OF g(1) g(2) g(3) d] g(4)
      login_gate [where cfg = cfg0 and isPasswordCorrect = check0
        and u = "alice\<lparr>refreshToken := None\<rparr>", OF a(1) a(2) a(3) d] a(4) a(5)
    by simp
qed

text \<open>
  C5 as stated fails for a call that leaves the password empty: no user matches the
  username \<^verbatim>\<open>ghost\<close>, and the call fails with status 400, not with 404.
\<close>

theorem login_without_password:
  "find (credential_matches (Some ''ghost'') None) (users (w_at 40 None)) = None
   \<and> login_controller cfg0 check0 (w_at 40 None)
       (req0\<lparr>body_username := Some ''ghost'', body_password := Some ''''\<rparr>)
     = (Inl (ApiError 400 ''Username or email and password are required.''), w_at 40 None)
   \<and> ApiError 400 ''Username or email and password are required.''
       \<noteq> ApiError 404 ''User does not exist.''"
  by (simp add: login_controller_def credential_matches_def w_at_def alice_def req0_def
      ApiError_def)

lemma login_success:
  assumes "login_controller cfg chk w req = (Inr out, w')"
  shows "\<exists>u su. out = Respond (login_response su (generateAccessToken cfg u (clock w))
                                  (generateRefreshToken cfg u (clock w)))
           \<and> find (\<lambda>x. uid x = uid u) (users w')
               = Some (u\<lparr>refreshToken := Some (generateRefreshToken cfg u (clock w))\<rparr>)
           \<and> clock w' = clock w"
proof -
  from assms obtain v w1 where
    f: "findOne w (body_username req) (body_email req) = (Inr (Some v), w1)"
    by (auto simp: login_controller_def split: if_splits prod.splits sum.splits option.splits)
  from f have w1: "users w1 = users w" "clock w1 = clock w"
    by (auto simp: findOne_def split: prod.splits option.splits dest: db_call_keeps)
  from assms f obtain a r w2 where
    g: "generateAccessTokenAndRefreshToken cfg w1 (uid v) = (Inr (a, r), w2)"
    by (auto simp: login_controller_def split: if_splits prod.splits sum.splits option.splits)
  from assms f g obtain lu where
    l: "findById w2 (uid v) = (Inr lu, w')"
       "out = Respond (login_response (map_option select_safe lu) a r)"
    by (auto simp: login_controller_def split: if_splits prod.splits sum.splits option.splits)
  from l(1) have w2: "users w' = users w2" "clock w' = clock w2"
    by (auto simp: findById_def split: prod.splits option.splits dest: db_call_keeps)
  from generate_stores [OF g] obtain u where
    u: "find (\<lambda>x. uid x = uid v) (users w1) = Some u"
       "a = generateAccessToken cfg u (clock w1)" "r = generateRefreshToken cfg u (clock w1)"
       "find (\<lambda>x. uid x = uid v) (users w2) = Some (u\<lparr>refreshToken := Some r\<rparr>)"
       "clock w2 = clock w1"
    by blast
  have "uid u = uid v" using find_holds [OF u(1)] .
  with u l w1 w2 show ?thesis by auto
qed

text \<open>
  C2, as the code has it. The user document has one optional refresh-token field. A
  successful login leaves the token it returns as the persisted value of its user, and so
  does a successful refresh. After two sequential successful logins of the same user
  whose refresh tokens \<open>t1\<close> and \<open>t2\<close> differ (the second login ran at another clock value
  than the first), a refresh that presents \<open>t1\<close> before it expires, with the store
  answering, fails with status 401, \<^verbatim>\<open>Refresh token is expired or used.\<close>
\<close>

theorem second_login_overwrites:
  assumes "login_controller cfg chk w req = (Inr (Respond (login_response su1 a1 t1)), w1)"
      and "login_controller cfg chk (w1\<lparr>clock := c2, db_script := s2\<rparr>) req'
             = (Inr (Respond (login_response su2 a2 t2)), w2)"
      and "jwt_sub t2 = jwt_sub t1"
      and "t2 \<noteq> t1"
      and "incomingRefreshToken rq = Some t1" and "c3 \<le> jwt_exp t1"
  shows "persisted w1 (jwt_sub t1) = Some (Some t1)
       \<and> persisted w2 (jwt_sub t1) = Some (Some t2)
       \<and> refresh_controller cfg (w2\<lparr>clock := c3, db_script := []\<rparr>) rq
           = (Inl (ApiError 401 ''Refresh token is expired or used.''),
              w2\<lparr>clock := c3, db_script := []\<rparr>)
       \<and> (refresh_controller cfg w3 rq' = (Inr (Respond (token_response a4 t4)), w4) \<longrightarrow>
            persisted w4 (jwt_sub t4) = Some (Some t4))"
proof -
  from login_success [OF assms(1)] obtain u where
    u: "t1 = generateRefreshToken cfg u (clock w)"
       "find (\<lambda>x. uid x = uid u) (users w1) = Some (u\<lparr>refreshToken := Some t1\<rparr>)"
    by (auto simp: login_response_def)
  from login_success [OF assms(2)] obtain v where
    v: "t2 = generateRefreshToken cfg v c2"
       "find (\<lambda>x. uid x = uid v) (users w2) = Some (v\<lparr>refreshToken := Some t2\<rparr>)"
    by (auto simp: login_response_def)
  have s1: "jwt_sub t1 = uid u" using u(1) by (simp add: generateRefreshToken_def)
  have s2: "jwt_sub t2 = uid v" using v(1) by (simp add: generateRefreshToken_def)
  have uv: "uid v = uid u" using s1 s2 assms(3) by simp
  have v1: "jwt_verify t1 (REFRESH_TOKEN_SECRET cfg) c3 = Inr (uid u)"
    using u(1) assms(6) by (simp add: jwt_verify_ok generateRefreshToken_def)
  have stale: "refresh_controller cfg (w2\<lparr>clock := c3, db_script := []\<rparr>) rq
           = (Inl (ApiError 401 ''Refresh token is expired or used.''),
              w2\<lparr>clock := c3, db_script := []\<rparr>)"
    by (rule refresh_rejects_stale
          [where t = t1 and i = "uid u" and u = "v\<lparr>refreshToken := Some t2\<rparr>"])
       (use assms(4,5) v1 v(2) uv in simp_all)
  have rot: "persisted w4 (jwt_sub t4) = Some (Some t4)"
    if r: "refresh_controller cfg w3 rq' = (Inr (Respond (token_response a4 t4)), w4)"
  proof -
    from refresh_controller_success [OF r] obtain t where
      "refresh_try cfg w3 t = (Inr (Respond (token_response a4 t4)), w4)" by blast
    from refresh_try_success [OF this] obtain x where
      x: "Respond (token_response a4 t4)
            = Respond (token_response (generateAccessToken cfg x (clock w3))
                                      (generateRefreshToken cfg x (clock w3)))"
         "find (\<lambda>y. uid y = uid x) (users w4)
            = Some (x\<lparr>refreshToken := Some (generateRefreshToken cfg x (clock w3))\<rparr>)"
      by blast
    from x(1) have t4: "t4 = generateRefreshToken cfg x (clock w3)"
      by (simp add: token_response_def)
    then have "jwt_sub t4 = uid x" by (simp add: generateRefreshToken_def)
    with x(2) t4 show ?thesis by (simp add: persisted_def)
  qed
  show ?thesis using stale u(2) v(2) s1 uv rot by (simp add: persisted_def)
qed

lemma run_login:
  "login_controller cfg0 check0 (w_at c t)
       (req0\<lparr>body_username := Some ''alice'', body_password := Some ''opensesame''\<rparr>)
     = (Inr (Respond (login_response (Some (select_safe alice))
                        (Jwt ''a'' 1 c (c + 10)) (Jwt ''r'' 1 c (c + 100)))),
        w_at c (Some (Jwt ''r'' 1 c (c + 100))))"
  by (simp add: controller_defs example_defs Let_def select_safe_def)

text \<open>
  Alice logs in at time 40 and again at time 50: each login leaves its own token in the
  store, and at 51 the token of the first login is refused.
\<close>

theorem second_login_overwrites_witness:
  "persisted (w_at 40 (Some t_old)) 1 = Some (Some t_old)
   \<and> persisted (w_at 50 (Some t_new)) 1 = Some (Some t_new)
   \<and> refresh_controller cfg0 (w_at 51 (Some t_new)) (req0\<lparr>cookies_refreshToken := Some t_old\<rparr>)
       = (Inl (ApiError 401 ''Refresh token is expired or used.''), w_at 51 (Some t_new))"
proof -
  have l1: "login_controller cfg0 check0 (w_at 40 None)
       (req0\<lparr>body_username := Some ''alice'', body_password := Some ''opensesame''\<rparr>)
     = (Inr (Respond (login_response (Some (select_safe alice)) (Jwt ''a'' 1 40 50) t_old)),
        w_at 40 (Some t_old))"
    using run_login [of 40 None] by (simp add: t_old_def)
  have l2: "login_controller cfg0 check0 ((w_at 40 (Some t_old))\<lparr>clock := 50, db_script := []\<rparr>)
       (req0\<lparr>body_username := Some ''alice'', body_password := Some ''opensesame''\<rparr>)
     = (Inr (Respond (login_response (Some (select_safe alice)) a_new t_new)),
        w_at 50 (Some t_new))"
    using run_login [of 50 "Some t_old"] by (simp add: t_new_def a_new_def w_at_def)
  have h: "jwt_sub t_new = jwt_sub t_old" "t_new \<noteq> t_old"
      "incomingRefreshToken (req0\<lparr>cookies_refreshToken := Some t_old\<rparr>) = Some t_old"
      "(51::nat) \<le> jwt_exp t_old" "jwt_sub t_old = 1"
    by (simp_all add: incomingRefreshToken_def req0_def t_old_def t_new_def)
  have w: "(w_at 50 (Some t_new))\<lparr>clock := 51, db_script := []\<rparr> = w_at 51 (Some t_new)"
    by (simp add: w_at_def)
  show ?thesis
    using second_login_overwrites [OF l1 l2 h(1) h(2) h(3) h(4)]
    unfolding w h(5) by simp
qed

text \<open>
  C2 as stated fails when both logins run at the same clock value. Alice logs in twice at
  time 40; both logins return the same refresh token, and the refresh that presents the
  token of the first login at time 41 succeeds.
\<close>

theorem same_clock_logins_share_token:
  "login_controller cfg0 check0 (w_at 40 None)
       (req0\<lparr>body_username := Some ''alice'', body_password := Some ''opensesame''\<rparr>)
     = (Inr (Respond (login_response (Some (select_safe alice)) (Jwt ''a'' 1 40 50) t_old)),
        w_at 40 (Some t_old))
   \<and> login_controller cfg0 check0 (w_at 40 (Some t_old))
       (req0\<lparr>body_username := Some ''alice'', body_password := Some ''opensesame''\<rparr>)
     = (Inr (Respond (login_response (Some (select_safe alice)) (Jwt ''a'' 1 40 50) t_old)),
        w_at 40 (Some t_old))
   \<and> refresh_controller cfg0 (w_at 41 (Some t_old)) (req0\<lparr>cookies_refreshToken := Some t_old\<rparr>)
     = (Inr (Respond (token_response (Jwt ''a'' 1 41 51) (Jwt ''r'' 1 41 141))),
        w_at 41 (Some (Jwt ''r'' 1 41 141)))"
  by (simp add: controller_defs example_defs Let_def select_safe_def)

end
